theory Spec2Isabelle
  imports Main "HOL-Library.AList" "HOL-Library.Word"
begin

section \<open>AI Medical Assistant: the report lifecycle of \<^verbatim>\<open>app.py\<close>\<close>

text \<open>
  \<^verbatim>\<open>app.py\<close> is a Streamlit script. Every user interaction runs the script once from
  top to bottom; \<^verbatim>\<open>st.button\<close> is true in the run caused by a click on that button.
  What survives from one run to the next is \<^verbatim>\<open>st.session_state\<close> (one per browser
  session), the URL query parameters, and the files in the working directory of the
  server process (shared by all sessions).

  The model covers a run from the uploader on (line 92): the display of the uploaded
  image (lines 97-99), which comes before every handler and can end the run, and the
  three handlers, \<^verbatim>\<open>Generate Report\<close> (lines 102-132), \<^verbatim>\<open>Export as DOCX\<close> (lines 135-169)
  and \<^verbatim>\<open>Clear All\<close> (lines 172-177). The configuration and the page header (lines
  10-89) are the same in every run of a process that has its API key, and write neither
  the session state nor a file; they are not modelled. The generative model, the image
  decoder behind \<^verbatim>\<open>st.image\<close>, the operating system's file operations and python-docx
  are collaborators outside the repository: what they answer is a parameter (\<open>env\<close>),
  how the script reacts to each answer is the model.
\<close>

subsection \<open>Data\<close>

type_synonym byte = "8 word"
type_synonym bytes = "byte list"

text \<open>Streamlit's \<^verbatim>\<open>UploadedFile\<close>: the name and type the browser reported, and the content.\<close>

record uploaded_file =
  file_name :: string
  file_type :: string
  getvalue :: bytes

text \<open>
  A Python exception: its class and its message (\<^verbatim>\<open>str(e)\<close>). Where the model raises
  an exception of Python itself (a missing key, attribute or file), the message is the
  name that was not found.
\<close>

datatype exn = Exn string string

fun str :: "exn \<Rightarrow> string" where
  "str (Exn cls msg) = msg"

text \<open>
  \<^verbatim>\<open>st.session_state\<close> is a dictionary from attribute names to Python values. The script
  stores a \<^verbatim>\<open>str\<close> and an \<^verbatim>\<open>UploadedFile\<close> in it. The dictionary is an association
  list in insertion order.
\<close>

datatype sval = Str string | File uploaded_file

type_synonym session_state = "(string \<times> sval) list"

text \<open>\<^verbatim>\<open>key in st.session_state\<close>\<close>

definition has_key :: "session_state \<Rightarrow> string \<Rightarrow> bool" where
  "has_key ss k = (map_of ss k \<noteq> None)"

text \<open>\<^verbatim>\<open>list(st.session_state.keys())\<close>: every key once.\<close>

definition keys :: "session_state \<Rightarrow> string list" where
  "keys ss = remdups (map fst ss)"

text \<open>\<^verbatim>\<open>del st.session_state[key]\<close> raises \<^verbatim>\<open>KeyError\<close> when the key is missing.\<close>

definition del_key :: "string \<Rightarrow> session_state \<Rightarrow> exn + session_state" where
  "del_key k ss =
     (if has_key ss k then Inr (AList.delete k ss)
      else Inl (Exn ''KeyError'' k))"

text \<open>\<^verbatim>\<open>st.session_state.key\<close> raises \<^verbatim>\<open>AttributeError\<close> when the key is missing.\<close>

definition getattr :: "session_state \<Rightarrow> string \<Rightarrow> exn + sval" where
  "getattr ss k =
     (case map_of ss k of
        None \<Rightarrow> Inl (Exn ''AttributeError'' k)
      | Some v \<Rightarrow> Inr v)"

text \<open>The request to the model: \<^verbatim>\<open>[img_payload, SYSTEM_PROMPT]\<close>.\<close>

record img_payload =
  mime_type :: string
  data :: bytes

type_synonym prompt_input = "img_payload \<times> string"

text \<open>
  What \<^verbatim>\<open>model.generate_content\<close> returns: an object whose \<^verbatim>\<open>text\<close> property gives
  the generated text or raises (a blocked answer has no text).
\<close>

datatype response = Response (resp_text: "exn + string")

text \<open>The document under construction (python-docx \<^verbatim>\<open>Document\<close>): its blocks in order.\<close>

datatype block =
    Heading string nat
  | Picture bytes nat
  | Paragraph sval

type_synonym document = "block list"

text \<open>
  What the script does that is visible outside it: the Streamlit elements it emits
  (\<^verbatim>\<open>st.warning\<close>, \<^verbatim>\<open>st.error\<close>, \<^verbatim>\<open>st.success\<close>, \<^verbatim>\<open>st.write\<close>,
  \<^verbatim>\<open>st.download_button\<close> with label, data, file name and mime type, \<^verbatim>\<open>st.image\<close> with
  the image, width and caption) and the requests it sends to the generative model.
\<close>

datatype effect =
    Warning string
  | Error string
  | Success string
  | Write string
  | DownloadButton string bytes string string
  | ModelCall prompt_input
  | Image bytes nat string

subsection \<open>The collaborators\<close>

text \<open>
  \<^verbatim>\<open>doc.save(path)\<close>: the bytes of the serialized document, or a failure that leaves
  nothing or a partial file at the path.
\<close>

datatype save_outcome =
    SaveOk bytes
  | SaveFails exn "bytes option"

text \<open>
  \<^item> \<open>generate_content\<close>: \<^verbatim>\<open>model.generate_content\<close>; it raises, or returns a response
    (\<open>None\<close> stands for a response that is false in \<^verbatim>\<open>if response\<close>).
  \<^item> \<open>st_image\<close>: whether \<^verbatim>\<open>st.image\<close> raises on an upload of this content (the
    uploader filters by file extension only, so the content can be anything).
  \<^item> \<open>os_open_wb\<close>: whether \<^verbatim>\<open>open(path, "wb")\<close> raises; when it does not, the file
    exists and is empty.
  \<^item> \<open>os_write\<close>: whether writing the bytes to the open file raises, and after how
    many bytes.
  \<^item> \<open>add_picture\<close>: whether python-docx raises on an image file of this content.
  \<^item> \<open>add_paragraph\<close>: whether python-docx raises on this paragraph text.
  \<^item> \<open>doc_save\<close>: the serialization.
\<close>

record env =
  generate_content :: "prompt_input \<Rightarrow> exn + response option"
  st_image :: "bytes \<Rightarrow> exn option"
  os_open_wb :: "string \<Rightarrow> exn option"
  os_write :: "string \<Rightarrow> bytes \<Rightarrow> (exn \<times> nat) option"
  add_picture :: "bytes \<Rightarrow> exn option"
  add_paragraph :: "sval \<Rightarrow> exn option"
  doc_save :: "string \<Rightarrow> document \<Rightarrow> save_outcome"

subsection \<open>Generate Report (lines 102-132)\<close>

definition SYSTEM_PROMPT :: string where
  \<open>SYSTEM_PROMPT =
    ''\<newline>You are a domain expert in medical image analysis. You are tasked with \<newline>'' @
    ''examining medical images for a renowned hospital. Your expertise will help in \<newline>'' @
    ''identifying or discovering any anomalies, diseases, conditions, or health issues \<newline>'' @
    ''that might be present in the image.\<newline>'' @
    ''\<newline>'' @
    ''Your key responsibilities:\<newline>'' @
    ''1. Detailed Analysis: Scrutinize and thoroughly examine each image, focusing on finding abnormalities.\<newline>'' @
    ''2. Analysis Report: Document findings and articulate them clearly in a structured format.\<newline>'' @
    ''3. Recommendations: Suggest remedies, tests, or treatments based on the analysis.\<newline>'' @
    ''4. Treatments: If applicable, lay out detailed treatments for faster recovery.\<newline>'' @
    ''\<newline>'' @
    ''Important Notes:\<newline>'' @
    ''1. Respond only if the image pertains to human health issues.\<newline>'' @
    ''2. If the image is unclear, note: 'Unable to be correctly determined based on the uploaded image.'\<newline>'' @
    ''3. Disclaimer: Accompany your analysis with: "Consult with a Doctor before making any decisions."\<newline>''\<close>

text \<open>
  The two guarded writes of lines 124-127: a key is written only when the session state
  does not have it yet.
\<close>

definition save_report :: "string \<Rightarrow> uploaded_file \<Rightarrow> session_state \<Rightarrow> session_state" where
  "save_report report_text uploaded ss =
     (let ss1 = (if \<not> has_key ss ''report_content''
                 then AList.update ''report_content'' (Str report_text) ss else ss);
          ss2 = (if \<not> has_key ss1 ''uploaded_image''
                 then AList.update ''uploaded_image'' (File uploaded) ss1 else ss1)
      in ss2)"

text \<open>
  The handler returns what it emitted and the session state it leaves. Everything that
  can raise is inside \<^verbatim>\<open>try ... except Exception\<close>, so no exception leaves the handler.
\<close>

definition generate_report ::
  "env \<Rightarrow> uploaded_file option \<Rightarrow> session_state \<Rightarrow> effect list \<times> session_state" where
  "generate_report env uploaded ss =
     (case uploaded of
        None \<Rightarrow> ([Warning ''Please upload an image before generating a report.''], ss)
      | Some f \<Rightarrow>
          (let img_data = getvalue f;
               img_payload = \<lparr>mime_type = ''image/jpeg'', data = img_data\<rparr>;
               prompt_input = (img_payload, SYSTEM_PROMPT)
           in case generate_content env prompt_input of
                Inl e \<Rightarrow>
                  ([ModelCall prompt_input,
                    Error (''Error generating report: '' @ str e)], ss)
              | Inr None \<Rightarrow>
                  ([ModelCall prompt_input,
                    Error ''Failed to generate a report. Please try again.''], ss)
              | Inr (Some resp) \<Rightarrow>
                  (case resp_text resp of
                     Inl e \<Rightarrow>
                       ([ModelCall prompt_input,
                         Success ''Report Generated Successfully!'',
                         Error (''Error generating report: '' @ str e)], ss)
                   | Inr report_text \<Rightarrow>
                       ([ModelCall prompt_input,
                         Success ''Report Generated Successfully!'',
                         Write report_text],
                        save_report report_text f ss))))"

subsection \<open>Export as DOCX (lines 135-169)\<close>

text \<open>
  The files of the working directory. Both paths of the handler are relative, fixed
  names, so every session of the process reads and writes the same two entries.
\<close>

type_synonym filesystem = "string \<rightharpoonup> bytes"

definition img_path :: string where
  "img_path = ''uploaded_image.jpg''"

definition doc_path :: string where
  "doc_path = ''AI_Medical_Report.docx''"

text \<open>\<^verbatim>\<open>Path.unlink()\<close> raises \<^verbatim>\<open>FileNotFoundError\<close> when the file is missing.\<close>

definition unlink :: "string \<Rightarrow> filesystem \<Rightarrow> exn + filesystem" where
  "unlink p fs =
     (case fs p of
        None \<Rightarrow> Inl (Exn ''FileNotFoundError'' p)
      | Some b \<Rightarrow> Inr (fs(p := None)))"

text \<open>
  One run of the handler, cut at its file operations: \<open>pc\<close> is the next one. The
  handler has no \<^verbatim>\<open>try\<close>: an exception ends the run (\<open>raised\<close>) and leaves the script.
\<close>

datatype pc =
    AtWriteImage
  | AtAddPicture
  | AtSave
  | AtDownload
  | AtUnlinkImage
  | AtUnlinkDoc
  | Finished

record export_run =
  pc :: pc
  doc :: document
  emitted :: "effect list"
  raised :: "exn option"

definition start :: export_run where
  "start = \<lparr>pc = AtWriteImage, doc = [], emitted = [], raised = None\<rparr>"

definition raise :: "exn \<Rightarrow> export_run \<Rightarrow> export_run" where
  "raise e r = r\<lparr>pc := Finished, raised := Some e\<rparr>"

text \<open>
  Lines 136-146: the check of the store, the new document with its heading, and the
  image file. Line 169 is the other branch.
\<close>

definition step_write_image ::
  "env \<Rightarrow> session_state \<Rightarrow> export_run \<times> filesystem \<Rightarrow> export_run \<times> filesystem" where
  "step_write_image env ss = (\<lambda>(r, fs).
     if has_key ss ''report_content'' \<and> has_key ss ''uploaded_image'' then
       (let r1 = r\<lparr>doc := [Heading ''AI Medical Assistant Report'' 1]\<rparr>
        in case os_open_wb env img_path of
             Some e \<Rightarrow> (raise e r1, fs)
           | None \<Rightarrow>
               (case getattr ss ''uploaded_image'' of
                  Inl e \<Rightarrow> (raise e r1, fs(img_path \<mapsto> []))
                | Inr (Str s) \<Rightarrow>
                    (raise (Exn ''AttributeError'' ''getvalue'') r1, fs(img_path \<mapsto> []))
                | Inr (File f) \<Rightarrow>
                    (case os_write env img_path (getvalue f) of
                       Some (e, n) \<Rightarrow> (raise e r1, fs(img_path \<mapsto> take n (getvalue f)))
                     | None \<Rightarrow> (r1\<lparr>pc := AtAddPicture\<rparr>, fs(img_path \<mapsto> getvalue f)))))
     else
       (r\<lparr>pc := Finished,
          emitted := emitted r @
            [Warning ''No report available to export. Please generate a report first.'']\<rparr>,
        fs))"

text \<open>
  Lines 147-150: \<^verbatim>\<open>doc.add_picture\<close> reads the file at \<open>img_path\<close> as it is now;
  \<^verbatim>\<open>Inches(4)\<close> is the width. Then the paragraph.
\<close>

definition step_add_picture ::
  "env \<Rightarrow> session_state \<Rightarrow> export_run \<times> filesystem \<Rightarrow> export_run \<times> filesystem" where
  "step_add_picture env ss = (\<lambda>(r, fs).
     case fs img_path of
       None \<Rightarrow> (raise (Exn ''FileNotFoundError'' img_path) r, fs)
     | Some b \<Rightarrow>
         (case add_picture env b of
            Some e \<Rightarrow> (raise e r, fs)
          | None \<Rightarrow>
              (let r1 = r\<lparr>doc := doc r @ [Picture b 4]\<rparr>
               in case getattr ss ''report_content'' of
                    Inl e \<Rightarrow> (raise e r1, fs)
                  | Inr v \<Rightarrow>
                      (case add_paragraph env v of
                         Some e \<Rightarrow> (raise e r1, fs)
                       | None \<Rightarrow>
                           (r1\<lparr>pc := AtSave, doc := doc r1 @ [Paragraph v]\<rparr>, fs)))))"

text \<open>Lines 153-154: \<^verbatim>\<open>doc.save(doc_path)\<close>.\<close>

definition step_save ::
  "env \<Rightarrow> export_run \<times> filesystem \<Rightarrow> export_run \<times> filesystem" where
  "step_save env = (\<lambda>(r, fs).
     case doc_save env doc_path (doc r) of
       SaveOk b \<Rightarrow> (r\<lparr>pc := AtDownload\<rparr>, fs(doc_path \<mapsto> b))
     | SaveFails e None \<Rightarrow> (raise e r, fs)
     | SaveFails e (Some b) \<Rightarrow> (raise e r, fs(doc_path \<mapsto> b)))"

text \<open>Lines 157-163: the saved file is read back and offered for download.\<close>

definition step_download :: "export_run \<times> filesystem \<Rightarrow> export_run \<times> filesystem" where
  "step_download = (\<lambda>(r, fs).
     case fs doc_path of
       None \<Rightarrow> (raise (Exn ''FileNotFoundError'' doc_path) r, fs)
     | Some b \<Rightarrow>
         (r\<lparr>pc := AtUnlinkImage,
            emitted := emitted r @
              [DownloadButton ''Download Report as DOCX'' b ''AI_Medical_Report.docx''
                 ''application/vnd.openxmlformats-officedocument.wordprocessingml.document'']\<rparr>,
          fs))"

text \<open>Lines 166-167: the two \<^verbatim>\<open>unlink\<close> calls.\<close>

definition step_unlink ::
  "string \<Rightarrow> pc \<Rightarrow> export_run \<times> filesystem \<Rightarrow> export_run \<times> filesystem" where
  "step_unlink p next_pc = (\<lambda>(r, fs).
     case unlink p fs of
       Inl e \<Rightarrow> (raise e r, fs)
     | Inr fs' \<Rightarrow> (r\<lparr>pc := next_pc\<rparr>, fs'))"

definition export_step ::
  "env \<Rightarrow> session_state \<Rightarrow> export_run \<times> filesystem \<Rightarrow> export_run \<times> filesystem" where
  "export_step env ss = (\<lambda>(r, fs).
     case pc r of
       AtWriteImage \<Rightarrow> step_write_image env ss (r, fs)
     | AtAddPicture \<Rightarrow> step_add_picture env ss (r, fs)
     | AtSave \<Rightarrow> step_save env (r, fs)
     | AtDownload \<Rightarrow> step_download (r, fs)
     | AtUnlinkImage \<Rightarrow> step_unlink img_path AtUnlinkDoc (r, fs)
     | AtUnlinkDoc \<Rightarrow> step_unlink doc_path Finished (r, fs)
     | Finished \<Rightarrow> (r, fs))"

text \<open>The handler run alone, from its first line to its end or to the exception.\<close>

definition export_docx ::
  "env \<Rightarrow> session_state \<Rightarrow> filesystem \<Rightarrow> export_run \<times> filesystem" where
  "export_docx env ss fs =
     (let s = export_step env ss in s (s (s (s (s (s (start, fs)))))))"

text \<open>
  Two sessions of one server process export at the same time: each has its own session
  state and its own run, the files are shared, and the schedule says whose file
  operation comes next.
\<close>

datatype sid = SessionA | SessionB

record concurrent =
  run_a :: export_run
  run_b :: export_run
  shared :: filesystem

fun interleave ::
  "env \<Rightarrow> session_state \<Rightarrow> env \<Rightarrow> session_state \<Rightarrow> sid list \<Rightarrow> concurrent \<Rightarrow> concurrent" where
  "interleave env_a ss_a env_b ss_b [] c = c"
| "interleave env_a ss_a env_b ss_b (SessionA # sched) c =
     (case export_step env_a ss_a (run_a c, shared c) of
        (r, fs) \<Rightarrow> interleave env_a ss_a env_b ss_b sched (c\<lparr>run_a := r, shared := fs\<rparr>))"
| "interleave env_a ss_a env_b ss_b (SessionB # sched) c =
     (case export_step env_b ss_b (run_b c, shared c) of
        (r, fs) \<Rightarrow> interleave env_a ss_a env_b ss_b sched (c\<lparr>run_b := r, shared := fs\<rparr>))"

subsection \<open>Clear All (lines 172-177)\<close>

text \<open>The loop of lines 174-175; an exception ends it with the keys deleted so far.\<close>

fun del_keys :: "string list \<Rightarrow> session_state \<Rightarrow> exn option \<times> session_state" where
  "del_keys [] ss = (None, ss)"
| "del_keys (k # ks) ss =
     (case del_key k ss of
        Inl e \<Rightarrow> (Some e, ss)
      | Inr ss' \<Rightarrow> del_keys ks ss')"

type_synonym query_params = "(string \<times> string) list"

definition clear_all ::
  "session_state \<Rightarrow> query_params \<Rightarrow> exn option \<times> session_state \<times> query_params" where
  "clear_all ss qp =
     (case del_keys (keys ss) ss of
        (Some e, ss') \<Rightarrow> (Some e, ss', qp)
      | (None, ss') \<Rightarrow> (None, ss', []))"

subsection \<open>One run of the script\<close>

text \<open>
  Lines 97-99: when the uploader holds a file, the script shows it. The call is outside
  every \<^verbatim>\<open>try\<close>, so an upload that cannot be decoded ends the run with the exception,
  before any handler.
\<close>

definition show_upload :: "env \<Rightarrow> uploaded_file option \<Rightarrow> effect list \<times> exn option" where
  "show_upload env uploaded =
     (case uploaded of
        None \<Rightarrow> ([], None)
      | Some f \<Rightarrow>
          (case st_image env (getvalue f) of
             Some e \<Rightarrow> ([], Some e)
           | None \<Rightarrow> ([Image (getvalue f) 200 ''Uploaded Image''], None)))"

text \<open>
  What a session keeps between runs, and the files of the process. A run is caused by
  at most one click; the uploader holds a file or nothing. The run returns what it
  emitted, the exception that ended it if any, and what it leaves.
\<close>

record world =
  session :: session_state
  params :: query_params
  files :: filesystem

datatype click = GenerateReport | ExportDocx | ClearAll

definition script ::
  "env \<Rightarrow> uploaded_file option \<Rightarrow> click option \<Rightarrow> world \<Rightarrow> effect list \<times> exn option \<times> world" where
  "script env uploaded button w =
     (case show_upload env uploaded of
        (shown, Some e) \<Rightarrow> (shown, Some e, w)
      | (shown, None) \<Rightarrow>
          (case button of
             None \<Rightarrow> (shown, None, w)
           | Some GenerateReport \<Rightarrow>
               (case generate_report env uploaded (session w) of
                  (out, ss) \<Rightarrow> (shown @ out, None, w\<lparr>session := ss\<rparr>))
           | Some ExportDocx \<Rightarrow>
               (case export_docx env (session w) (files w) of
                  (r, fs) \<Rightarrow> (shown @ emitted r, raised r, w\<lparr>files := fs\<rparr>))
           | Some ClearAll \<Rightarrow>
               (case clear_all (session w) (params w) of
                  (e, ss, qp) \<Rightarrow> (shown, e, w\<lparr>session := ss, params := qp\<rparr>))))"

text \<open>
  A session from its start: the session state is empty, and each interaction runs the
  script on what the previous run left, also after an exception.
\<close>

definition initial :: "filesystem \<Rightarrow> world" where
  "initial fs = \<lparr>session = [], params = [], files = fs\<rparr>"

fun runs :: "(env \<times> uploaded_file option \<times> click option) list \<Rightarrow> world \<Rightarrow> world" where
  "runs [] w = w"
| "runs ((env, uploaded, button) # rest) w =
     (case script env uploaded button w of (out, e, w') \<Rightarrow> runs rest w')"

subsection \<open>Reading the store\<close>

text \<open>
  The report a session holds, read the way the export handler reads it: the text
  under \<^verbatim>\<open>report_content\<close>, the bytes of the file under \<^verbatim>\<open>uploaded_image\<close>.
\<close>

definition stored_text :: "session_state \<Rightarrow> string option" where
  "stored_text ss =
     (case map_of ss ''report_content'' of
        Some (Str t) \<Rightarrow> Some t
      | Some (File f) \<Rightarrow> None
      | None \<Rightarrow> None)"

definition stored_image :: "session_state \<Rightarrow> bytes option" where
  "stored_image ss =
     (case map_of ss ''uploaded_image'' of
        Some (File f) \<Rightarrow> Some (getvalue f)
      | Some (Str t) \<Rightarrow> None
      | None \<Rightarrow> None)"

text \<open>The two keys of a report are present together or absent together.\<close>

definition paired :: "session_state \<Rightarrow> bool" where
  "paired ss = (has_key ss ''report_content'' = has_key ss ''uploaded_image'')"

text \<open>The requests to the generative model among the effects of a run.\<close>

fun requests :: "effect list \<Rightarrow> prompt_input list" where
  "requests [] = []"
| "requests (ModelCall p # es) = p # requests es"
| "requests (e # es) = requests es"

subsection \<open>Sample inputs\<close>

text \<open>
  Two uploads that hold only the first bytes of a JPEG and of a PNG, two uploads that
  are complete PNG files (one grey pixel each, white and black), and collaborators that
  all succeed: the model answers with the given text, and the serialized document is
  the zip signature followed by the bytes of the embedded pictures.
\<close>

definition photo :: uploaded_file where
  "photo = \<lparr>file_name = ''photo.jpg'', file_type = ''image/jpeg'',
             getvalue = [0xFF, 0xD8, 0xFF, 0xE0]\<rparr>"

definition scan :: uploaded_file where
  "scan = \<lparr>file_name = ''scan.png'', file_type = ''image/png'',
            getvalue = [0x89, 0x50, 0x4E, 0x47]\<rparr>"

definition white_pixel :: uploaded_file where
  "white_pixel = \<lparr>file_name = ''white.png'', file_type = ''image/png'',
     getvalue =
       [0x89, 0x50, 0x4E, 0x47, 0x0D, 0x0A, 0x1A, 0x0A,
        0x00, 0x00, 0x00, 0x0D, 0x49, 0x48, 0x44, 0x52,
        0x00, 0x00, 0x00, 0x01, 0x00, 0x00, 0x00, 0x01, 0x08, 0x00, 0x00, 0x00, 0x00,
        0x3A, 0x7E, 0x9B, 0x55,
        0x00, 0x00, 0x00, 0x0A, 0x49, 0x44, 0x41, 0x54,
        0x78, 0x9C, 0x63, 0xF8, 0x0F, 0x00, 0x01, 0x01, 0x01, 0x00,
        0xB1, 0x38, 0xF6, 0x14,
        0x00, 0x00, 0x00, 0x00, 0x49, 0x45, 0x4E, 0x44, 0xAE, 0x42, 0x60, 0x82]\<rparr>"

definition black_pixel :: uploaded_file where
  "black_pixel = \<lparr>file_name = ''black.png'', file_type = ''image/png'',
     getvalue =
       [0x89, 0x50, 0x4E, 0x47, 0x0D, 0x0A, 0x1A, 0x0A,
        0x00, 0x00, 0x00, 0x0D, 0x49, 0x48, 0x44, 0x52,
        0x00, 0x00, 0x00, 0x01, 0x00, 0x00, 0x00, 0x01, 0x08, 0x00, 0x00, 0x00, 0x00,
        0x3A, 0x7E, 0x9B, 0x55,
        0x00, 0x00, 0x00, 0x0A, 0x49, 0x44, 0x41, 0x54,
        0x78, 0x9C, 0x63, 0x60, 0x00, 0x00, 0x00, 0x02, 0x00, 0x01,
        0x48, 0xAF, 0xA4, 0x71,
        0x00, 0x00, 0x00, 0x00, 0x49, 0x45, 0x4E, 0x44, 0xAE, 0x42, 0x60, 0x82]\<rparr>"

fun pictures :: "document \<Rightarrow> bytes" where
  "pictures [] = []"
| "pictures (Picture b w # d) = b @ pictures d"
| "pictures (x # d) = pictures d"

definition answering :: "string \<Rightarrow> env" where
  "answering t =
     \<lparr>generate_content = (\<lambda>p. Inr (Some (Response (Inr t)))),
      st_image = (\<lambda>b. None),
      os_open_wb = (\<lambda>p. None),
      os_write = (\<lambda>p b. None),
      add_picture = (\<lambda>b. None),
      add_paragraph = (\<lambda>v. None),
      doc_save = (\<lambda>p d. SaveOk (0x50 # 0x4B # pictures d))\<rparr>"

text \<open>python-docx does not recognise the image.\<close>

definition unrecognised :: env where
  "unrecognised =
     (answering [])\<lparr>add_picture := (\<lambda>b. Some (Exn ''UnrecognizedImageError'' []))\<rparr>"

text \<open>The disk is full when the document is saved, after two bytes.\<close>

definition disk_full :: env where
  "disk_full =
     (answering [])\<lparr>doc_save := (\<lambda>p d.
        SaveFails (Exn ''OSError'' ''[Errno 28] No space left on device'') (Some [0x50, 0x4B]))\<rparr>"

text \<open>The same failure, with nothing left at the document path.\<close>

definition save_denied :: env where
  "save_denied =
     (answering [])\<lparr>doc_save := (\<lambda>p d.
        SaveFails (Exn ''OSError'' ''[Errno 28] No space left on device'') None)\<rparr>"

text \<open>The disk is full when the image is written, after two bytes.\<close>

definition short_write :: env where
  "short_write =
     (answering [])\<lparr>os_write := (\<lambda>p b.
        Some (Exn ''OSError'' ''[Errno 28] No space left on device'', 2))\<rparr>"

text \<open>The working directory is not writable.\<close>

definition read_only :: env where
  "read_only =
     (answering [])\<lparr>os_open_wb := (\<lambda>p. Some (Exn ''PermissionError'' ''[Errno 13] Permission denied''))\<rparr>"

text \<open>A working directory without files.\<close>

definition no_files :: filesystem where
  "no_files = Map.empty"

text \<open>The image decoder rejects every upload.\<close>

definition undecodable :: env where
  "undecodable =
     (answering [])\<lparr>st_image := (\<lambda>b.
        Some (Exn ''UnidentifiedImageError'' ''cannot identify image file''))\<rparr>"

text \<open>A session that holds a report on \<open>photo\<close>, and one that holds a report on \<open>scan\<close>.\<close>

definition ready_photo :: session_state where
  "ready_photo =
     [(''report_content'', Str ''No abnormality detected. Consult a Doctor.''),
      (''uploaded_image'', File photo)]"

definition ready_scan :: session_state where
  "ready_scan =
     [(''report_content'', Str ''Fracture of the left wrist.''),
      (''uploaded_image'', File scan)]"

text \<open>A session that holds a report on the white pixel.\<close>

definition ready_white :: session_state where
  "ready_white =
     [(''report_content'', Str ''No abnormality detected. Consult a Doctor.''),
      (''uploaded_image'', File white_pixel)]"

section \<open>Properties\<close>

subsection \<open>The session state\<close>

lemma has_key_update:
  "has_key (AList.update k v ss) k' = (k' = k \<or> has_key ss k')"
  by (simp add: has_key_def update_conv')

lemma has_key_iff: "has_key ss k = (k \<in> fst ` set ss)"
  by (simp add: has_key_def map_of_eq_None_iff)

lemma save_report_has_keys:
  "has_key (save_report t f ss) ''report_content'' \<and>
   has_key (save_report t f ss) ''uploaded_image''"
  by (simp add: save_report_def Let_def has_key_update)

lemma save_report_ready:
  "has_key ss ''report_content'' \<Longrightarrow> has_key ss ''uploaded_image'' \<Longrightarrow>
   save_report t f ss = ss"
  by (simp add: save_report_def)

lemma save_report_image:
  "map_of (save_report t f ss) ''uploaded_image'' =
     (if has_key ss ''uploaded_image'' then map_of ss ''uploaded_image'' else Some (File f))"
  by (simp add: save_report_def Let_def has_key_update update_conv')

lemma paired_save_report: "paired (save_report t f ss)"
  using save_report_has_keys [of t f ss] by (simp add: paired_def)

subsection \<open>The generate handler\<close>

lemma generate_report_success:
  assumes "generate_content env
             (\<lparr>mime_type = ''image/jpeg'', data = getvalue f\<rparr>, SYSTEM_PROMPT)
           = Inr (Some resp)"
      and "resp_text resp = Inr t"
  shows "generate_report env (Some f) ss =
     ([ModelCall (\<lparr>mime_type = ''image/jpeg'', data = getvalue f\<rparr>, SYSTEM_PROMPT),
       Success ''Report Generated Successfully!'', Write t], save_report t f ss)"
  using assms by (simp add: generate_report_def)

lemma generate_report_session:
  "snd (generate_report env up ss) = ss \<or>
   (\<exists>t f. snd (generate_report env up ss) = save_report t f ss)"
  by (auto simp: generate_report_def Let_def split: option.splits sum.splits)

lemma paired_generate:
  "paired ss \<Longrightarrow> paired (snd (generate_report env up ss))"
  using generate_report_session [of env up ss] by (auto simp: paired_save_report)

subsection \<open>The clear handler\<close>

text \<open>
  Deleting distinct keys that are all present never raises, and removes exactly the
  entries under these keys.
\<close>

lemma del_keys_filter:
  "distinct ks \<Longrightarrow> set ks \<subseteq> fst ` set ss \<Longrightarrow>
   del_keys ks ss = (None, filter (\<lambda>p. fst p \<notin> set ks) ss)"
proof (induction ks arbitrary: ss)
  case Nil
  then show ?case by simp
next
  case (Cons k ks)
  have present: "has_key ss k"
    using Cons.prems(2) by (simp add: has_key_iff)
  have rest: "set ks \<subseteq> fst ` set (AList.delete k ss)"
  proof
    fix x assume x: "x \<in> set ks"
    then obtain v where "(x, v) \<in> set ss" using Cons.prems(2) by auto
    moreover have "x \<noteq> k" using x Cons.prems(1) by auto
    ultimately have "(x, v) \<in> set (AList.delete k ss)" by (simp add: AList.delete_eq)
    then show "x \<in> fst ` set (AList.delete k ss)" by force
  qed
  have "del_keys (k # ks) ss = del_keys ks (AList.delete k ss)"
    using present by (simp add: del_key_def)
  also have "\<dots> = (None, filter (\<lambda>p. fst p \<notin> set ks) (AList.delete k ss))"
    using Cons.IH [OF _ rest] Cons.prems(1) by simp
  also have "filter (\<lambda>p. fst p \<notin> set ks) (AList.delete k ss)
             = filter (\<lambda>p. fst p \<notin> set (k # ks)) ss"
    by (auto simp: AList.delete_eq intro: filter_cong)
  finally show ?case .
qed

lemma del_keys_all: "del_keys (keys ss) ss = (None, [])"
proof -
  have "del_keys (keys ss) ss = (None, filter (\<lambda>p. fst p \<notin> set (keys ss)) ss)"
    by (rule del_keys_filter) (simp_all add: keys_def)
  also have "filter (\<lambda>p. fst p \<notin> set (keys ss)) ss = []"
    by (simp add: keys_def filter_empty_conv)
  finally show ?thesis .
qed

lemma clear_all_result: "clear_all ss qp = (None, [], [])"
  by (simp add: clear_all_def del_keys_all)

subsection \<open>The export handler\<close>

lemmas export_defs =
  export_step_def step_write_image_def step_add_picture_def step_save_def
  step_download_def step_unlink_def unlink_def raise_def start_def getattr_def has_key_def

lemmas sample_defs =
  answering_def unrecognised_def disk_full_def save_denied_def short_write_def read_only_def
  undecodable_def no_files_def ready_photo_def ready_scan_def photo_def scan_def

lemma path_neq: "img_path \<noteq> doc_path"
  by (simp add: img_path_def doc_path_def)

text \<open>Six steps end every run of the handler.\<close>

lemma export_docx_finished: "pc (fst (export_docx env ss fs)) = Finished"
  by (auto simp: export_docx_def export_defs Let_def img_path_def doc_path_def
      split: option.splits sum.splits sval.splits save_outcome.splits prod.splits)

text \<open>
  A run that goes alone never reads a file it has not written itself, and a step
  touches no path but the two of the handler.
\<close>

lemma export_docx_own_files:
  "fst (export_docx env ss fs) = fst (export_docx env ss fs')"
  by (auto simp: export_docx_def export_defs Let_def img_path_def doc_path_def
      split: option.splits sum.splits sval.splits save_outcome.splits prod.splits)

lemma export_step_paths:
  "p \<noteq> img_path \<Longrightarrow> p \<noteq> doc_path \<Longrightarrow> snd (export_step env ss (r, fs)) p = fs p"
  by (auto simp: export_defs Let_def
      split: pc.splits option.splits sum.splits sval.splits save_outcome.splits prod.splits)

text \<open>The run along each of its paths, first to last.\<close>

lemma export_docx_not_ready:
  assumes "\<not> (has_key ss ''report_content'' \<and> has_key ss ''uploaded_image'')"
  shows "export_docx env ss fs =
     (\<lparr>pc = Finished, doc = [],
       emitted = [Warning ''No report available to export. Please generate a report first.''],
       raised = None\<rparr>, fs)"
  using assms by (auto simp: export_docx_def export_step_def step_write_image_def start_def)

lemma export_docx_open_fails:
  assumes "map_of ss ''report_content'' = Some v"
      and "map_of ss ''uploaded_image'' = Some u"
      and "os_open_wb env img_path = Some e"
  shows "export_docx env ss fs =
     (\<lparr>pc = Finished, doc = [Heading ''AI Medical Assistant Report'' 1], emitted = [],
       raised = Some e\<rparr>, fs)"
  using assms by (simp add: export_docx_def export_defs)

lemma export_docx_write_fails:
  assumes "map_of ss ''report_content'' = Some v"
      and "map_of ss ''uploaded_image'' = Some (File f)"
      and "os_open_wb env img_path = None"
      and "os_write env img_path (getvalue f) = Some (e, n)"
  shows "export_docx env ss fs =
     (\<lparr>pc = Finished, doc = [Heading ''AI Medical Assistant Report'' 1], emitted = [],
       raised = Some e\<rparr>, fs(img_path \<mapsto> take n (getvalue f)))"
  using assms by (simp add: export_docx_def export_defs)

lemma export_docx_picture_fails:
  assumes "map_of ss ''report_content'' = Some v"
      and "map_of ss ''uploaded_image'' = Some (File f)"
      and "os_open_wb env img_path = None"
      and "os_write env img_path (getvalue f) = None"
      and "add_picture env (getvalue f) = Some e"
  shows "export_docx env ss fs =
     (\<lparr>pc = Finished, doc = [Heading ''AI Medical Assistant Report'' 1], emitted = [],
       raised = Some e\<rparr>, fs(img_path \<mapsto> getvalue f))"
  using assms by (simp add: export_docx_def export_defs)

lemma export_docx_paragraph_fails:
  assumes "map_of ss ''report_content'' = Some v"
      and "map_of ss ''uploaded_image'' = Some (File f)"
      and "os_open_wb env img_path = None"
      and "os_write env img_path (getvalue f) = None"
      and "add_picture env (getvalue f) = None"
      and "add_paragraph env v = Some e"
  shows "export_docx env ss fs =
     (\<lparr>pc = Finished,
       doc = [Heading ''AI Medical Assistant Report'' 1, Picture (getvalue f) 4],
       emitted = [], raised = Some e\<rparr>, fs(img_path \<mapsto> getvalue f))"
  using assms by (simp add: export_docx_def export_defs)

lemma export_docx_save_fails:
  assumes "map_of ss ''report_content'' = Some v"
      and "map_of ss ''uploaded_image'' = Some (File f)"
      and "os_open_wb env img_path = None"
      and "os_write env img_path (getvalue f) = None"
      and "add_picture env (getvalue f) = None"
      and "add_paragraph env v = None"
      and "doc_save env doc_path
             [Heading ''AI Medical Assistant Report'' 1, Picture (getvalue f) 4, Paragraph v]
           = SaveFails e part"
  shows "export_docx env ss fs =
     (\<lparr>pc = Finished,
       doc = [Heading ''AI Medical Assistant Report'' 1, Picture (getvalue f) 4, Paragraph v],
       emitted = [], raised = Some e\<rparr>,
      case part of None \<Rightarrow> fs(img_path \<mapsto> getvalue f)
      | Some b \<Rightarrow> fs(img_path \<mapsto> getvalue f, doc_path \<mapsto> b))"
  using assms by (cases part) (simp_all add: export_docx_def export_defs)

lemma export_docx_success:
  assumes "map_of ss ''report_content'' = Some v"
      and "map_of ss ''uploaded_image'' = Some (File f)"
      and "os_open_wb env img_path = None"
      and "os_write env img_path (getvalue f) = None"
      and "add_picture env (getvalue f) = None"
      and "add_paragraph env v = None"
      and "doc_save env doc_path
             [Heading ''AI Medical Assistant Report'' 1, Picture (getvalue f) 4, Paragraph v]
           = SaveOk b"
  shows "export_docx env ss fs =
     (\<lparr>pc = Finished,
       doc = [Heading ''AI Medical Assistant Report'' 1, Picture (getvalue f) 4, Paragraph v],
       emitted = [DownloadButton ''Download Report as DOCX'' b ''AI_Medical_Report.docx''
         ''application/vnd.openxmlformats-officedocument.wordprocessingml.document''],
       raised = None\<rparr>,
      fs(img_path := None, doc_path := None))"
  using assms path_neq by (simp add: export_docx_def export_defs fun_upd_twist)

subsection \<open>The script\<close>

lemma show_upload_none: "show_upload env None = ([], None)"
  by (simp add: show_upload_def)

lemma show_upload_shown:
  "st_image env (getvalue f) = None \<Longrightarrow>
   show_upload env (Some f) = ([Image (getvalue f) 200 ''Uploaded Image''], None)"
  by (simp add: show_upload_def)

text \<open>A run that ends at line 99 reaches no handler and changes nothing.\<close>

lemma script_aborts:
  "st_image env (getvalue f) = Some e \<Longrightarrow> script env (Some f) button w = ([], Some e, w)"
  by (simp add: script_def show_upload_def)

lemma undecodable_upload_ends_run:
  "script undecodable (Some photo) (Some ClearAll)
     \<lparr>session = ready_white, params = [(''page'', ''1'')], files = no_files\<rparr> =
   ([], Some (Exn ''UnidentifiedImageError'' ''cannot identify image file''),
    \<lparr>session = ready_white, params = [(''page'', ''1'')], files = no_files\<rparr>)"
  by (simp add: script_aborts undecodable_def)

lemma script_generate:
  "show_upload env up = (shown, None) \<Longrightarrow>
   script env up (Some GenerateReport) w =
     (shown @ fst (generate_report env up (session w)), None,
      w\<lparr>session := snd (generate_report env up (session w))\<rparr>)"
  by (simp add: script_def split: prod.splits)

lemma script_export:
  "show_upload env up = (shown, None) \<Longrightarrow>
   script env up (Some ExportDocx) w =
     (shown @ emitted (fst (export_docx env (session w) (files w))),
      raised (fst (export_docx env (session w) (files w))),
      w\<lparr>files := snd (export_docx env (session w) (files w))\<rparr>)"
  by (simp add: script_def split: prod.splits)

lemma script_clear:
  "show_upload env up = (shown, None) \<Longrightarrow>
   script env up (Some ClearAll) w = (shown, None, w\<lparr>session := [], params := []\<rparr>)"
  by (simp add: script_def clear_all_result)

lemma paired_script:
  assumes "paired (session w)"
  shows "paired (session (snd (snd (script env up button w))))"
proof -
  obtain shown x where su: "show_upload env up = (shown, x)"
    by (cases "show_upload env up")
  show ?thesis
  proof (cases x)
    case (Some e)
    then show ?thesis using su assms by (simp add: script_def)
  next
    case None
    note ok = su [unfolded None]
    show ?thesis
    proof (cases button)
      case None
      then show ?thesis using ok assms by (simp add: script_def)
    next
      case (Some b)
      show ?thesis
      proof (cases b)
        case GenerateReport
        then show ?thesis
          using Some assms by (simp add: script_generate [OF ok] paired_generate)
      next
        case ExportDocx
        then show ?thesis
          using Some assms by (simp add: script_export [OF ok])
      next
        case ClearAll
        then show ?thesis
          using Some by (simp add: script_clear [OF ok] paired_def has_key_def)
      qed
    qed
  qed
qed

lemma paired_runs: "paired (session w) \<Longrightarrow> paired (session (runs evs w))"
proof (induction evs arbitrary: w)
  case Nil
  then show ?case by simp
next
  case (Cons ev evs)
  obtain env up button where ev: "ev = (env, up, button)"
    by (cases ev)
  obtain out e w' where s: "script env up button w = (out, e, w')"
    by (cases "script env up button w")
  have "paired (session w')"
    using paired_script [OF Cons.prems, of env up button] s by simp
  then show ?case using Cons.IH ev s by simp
qed

section \<open>The claims\<close>

subsection \<open>C1: a second generate action\<close>

text \<open>
  C1 as stated (the later response overwrites the stored report) fails. A new session
  generates on \<open>photo\<close> and is answered \<open>first\<close>, then generates on \<open>scan\<close> and is
  answered \<open>second\<close>: the store still holds the first text and the first image.
\<close>

theorem generate_twice_keeps_first:
  "stored_text (snd (generate_report (answering ''second'') (Some scan)
      (snd (generate_report (answering ''first'') (Some photo) [])))) = Some ''first''
   \<and> stored_image (snd (generate_report (answering ''second'') (Some scan)
      (snd (generate_report (answering ''first'') (Some photo) [])))) = Some (getvalue photo)
   \<and> ''first'' \<noteq> ''second'' \<and> getvalue photo \<noteq> getvalue scan"
  by (simp add: generate_report_def answering_def save_report_def has_key_def
      stored_text_def stored_image_def photo_def scan_def)

text \<open>
  C1, amended. In a session whose state already holds both keys of a report, a later
  successful generate action sends its request, shows the new text, and leaves the
  session state exactly as it was: both guarded writes are skipped, the first report
  stays (first write wins), and nothing is merged.
\<close>

theorem generate_keeps_stored_report:
  assumes "has_key ss ''report_content''" and "has_key ss ''uploaded_image''"
      and "generate_content env
             (\<lparr>mime_type = ''image/jpeg'', data = getvalue f\<rparr>, SYSTEM_PROMPT)
           = Inr (Some resp)"
      and "resp_text resp = Inr t"
  shows "generate_report env (Some f) ss =
     ([ModelCall (\<lparr>mime_type = ''image/jpeg'', data = getvalue f\<rparr>, SYSTEM_PROMPT),
       Success ''Report Generated Successfully!'', Write t], ss)"
  using assms by (simp add: generate_report_success save_report_ready)

theorem generate_keeps_stored_report_witness:
  "has_key ready_photo ''report_content'' \<and> has_key ready_photo ''uploaded_image''
   \<and> generate_report (answering ''second'') (Some scan) ready_photo =
     ([ModelCall (\<lparr>mime_type = ''image/jpeg'', data = getvalue scan\<rparr>, SYSTEM_PROMPT),
       Success ''Report Generated Successfully!'', Write ''second''], ready_photo)
   \<and> stored_text ready_photo = Some ''No abnormality detected. Consult a Doctor.''"
proof -
  have k1: "has_key ready_photo ''report_content''"
    by (simp add: has_key_def ready_photo_def)
  have k2: "has_key ready_photo ''uploaded_image''"
    by (simp add: has_key_def ready_photo_def)
  have g: "generate_content (answering ''second'')
             (\<lparr>mime_type = ''image/jpeg'', data = getvalue scan\<rparr>, SYSTEM_PROMPT)
           = Inr (Some (Response (Inr ''second'')))"
    by (simp add: answering_def)
  have t: "resp_text (Response (Inr ''second'')) = Inr ''second''"
    by simp
  have s: "stored_text ready_photo = Some ''No abnormality detected. Consult a Doctor.''"
    by (simp add: stored_text_def ready_photo_def)
  show ?thesis
    using k1 k2 s generate_keeps_stored_report [OF k1 k2 g t] by simp
qed

subsection \<open>C2: the temporary files of an export\<close>

text \<open>
  C2 as stated (both files are deleted on every exit path) fails. The session holds a
  report, the directory holds no file, and python-docx rejects the image: the exception
  ends the run before line 166, and the image file written at line 146 is still there.
\<close>

theorem image_file_left_behind:
  "no_files img_path = None
   \<and> raised (fst (export_docx unrecognised ready_photo no_files))
       = Some (Exn ''UnrecognizedImageError'' [])
   \<and> snd (export_docx unrecognised ready_photo no_files) img_path
       = Some [0xFF, 0xD8, 0xFF, 0xE0]"
  by (simp add: export_docx_def export_defs sample_defs)

text \<open>
  C2, amended. For an export on a store that holds a report, once the image file is
  written: when no later step raises, the run ends without an exception and both
  temporary files are deleted, so neither path exists afterwards; when a later step
  raises (building or serializing the document), nothing is deleted and the image file
  is still on disk with the bytes of the stored image.
\<close>

theorem export_cleanup:
  assumes "map_of ss ''report_content'' = Some v"
      and "map_of ss ''uploaded_image'' = Some (File f)"
      and "os_open_wb env img_path = None"
      and "os_write env img_path (getvalue f) = None"
  shows "(add_picture env (getvalue f) = None \<and> add_paragraph env v = None \<and>
          doc_save env doc_path
            [Heading ''AI Medical Assistant Report'' 1, Picture (getvalue f) 4, Paragraph v]
          = SaveOk b
          \<longrightarrow> raised (fst (export_docx env ss fs)) = None
              \<and> snd (export_docx env ss fs) = fs(img_path := None, doc_path := None))
       \<and> (raised (fst (export_docx env ss fs)) \<noteq> None
          \<longrightarrow> snd (export_docx env ss fs) img_path = Some (getvalue f))"
proof (intro conjI impI)
  assume ok: "add_picture env (getvalue f) = None \<and> add_paragraph env v = None \<and>
          doc_save env doc_path
            [Heading ''AI Medical Assistant Report'' 1, Picture (getvalue f) 4, Paragraph v]
          = SaveOk b"
  show "raised (fst (export_docx env ss fs)) = None"
    using assms ok by (simp add: export_docx_success)
  show "snd (export_docx env ss fs) = fs(img_path := None, doc_path := None)"
    using assms ok by (simp add: export_docx_success)
next
  assume r: "raised (fst (export_docx env ss fs)) \<noteq> None"
  show "snd (export_docx env ss fs) img_path = Some (getvalue f)"
  proof (cases "add_picture env (getvalue f)")
    case (Some e)
    then show ?thesis using assms by (simp add: export_docx_picture_fails)
  next
    case None
    note pic = this
    show ?thesis
    proof (cases "add_paragraph env v")
      case (Some e)
      then show ?thesis using assms pic by (simp add: export_docx_paragraph_fails)
    next
      case None
      note par = this
      show ?thesis
      proof (cases "doc_save env doc_path
            [Heading ''AI Medical Assistant Report'' 1, Picture (getvalue f) 4, Paragraph v]")
        case (SaveOk b')
        then have "raised (fst (export_docx env ss fs)) = None"
          using assms pic par by (simp add: export_docx_success)
        then show ?thesis using r by simp
      next
        case (SaveFails e part)
        then show ?thesis
          using assms pic par path_neq
          by (cases part) (simp_all add: export_docx_save_fails)
      qed
    qed
  qed
qed

theorem export_cleanup_witness:
  "raised (fst (export_docx (answering []) ready_photo no_files)) = None
   \<and> snd (export_docx (answering []) ready_photo no_files) = no_files
   \<and> raised (fst (export_docx unrecognised ready_photo no_files)) \<noteq> None
   \<and> snd (export_docx unrecognised ready_photo no_files) img_path = Some (getvalue photo)"
proof -
  have a: "map_of ready_photo ''report_content''
             = Some (Str ''No abnormality detected. Consult a Doctor.'')"
    by (simp add: ready_photo_def)
  have b: "map_of ready_photo ''uploaded_image'' = Some (File photo)"
    by (simp add: ready_photo_def)
  have c: "os_open_wb (answering []) img_path = None"
    by (simp add: answering_def)
  have d: "os_write (answering []) img_path (getvalue photo) = None"
    by (simp add: answering_def)
  have c': "os_open_wb unrecognised img_path = None"
    by (simp add: unrecognised_def answering_def)
  have d': "os_write unrecognised img_path (getvalue photo) = None"
    by (simp add: unrecognised_def answering_def)
  have ok: "add_picture (answering []) (getvalue photo) = None
      \<and> add_paragraph (answering []) (Str ''No abnormality detected. Consult a Doctor.'') = None
      \<and> doc_save (answering []) doc_path
            [Heading ''AI Medical Assistant Report'' 1, Picture (getvalue photo) 4,
             Paragraph (Str ''No abnormality detected. Consult a Doctor.'')]
          = SaveOk (0x50 # 0x4B # getvalue photo)"
    by (simp add: answering_def)
  have r: "raised (fst (export_docx unrecognised ready_photo no_files)) \<noteq> None"
    by (simp add: export_docx_def export_defs sample_defs)
  show ?thesis
    using ok r
      export_cleanup [OF a b c d, of "0x50 # 0x4B # getvalue photo" no_files]
      export_cleanup [OF a b c' d', of "[]" no_files]
    by (simp add: no_files_def)
qed

subsection \<open>C3: a failing export\<close>

text \<open>
  C3 as stated (a failure becomes a message, and no partial file stays) fails. The
  session holds a report and the disk is full when the document is saved: the handler
  emits nothing, ends with the exception and its cause, and both the image file and the
  two bytes of the document are on disk.
\<close>

theorem save_failure_is_uncaught:
  "emitted (fst (export_docx disk_full ready_photo no_files)) = []
   \<and> raised (fst (export_docx disk_full ready_photo no_files))
       = Some (Exn ''OSError'' ''[Errno 28] No space left on device'')
   \<and> snd (export_docx disk_full ready_photo no_files) img_path
       = Some [0xFF, 0xD8, 0xFF, 0xE0]
   \<and> snd (export_docx disk_full ready_photo no_files) doc_path = Some [0x50, 0x4B]"
  by (simp add: export_docx_def export_defs sample_defs img_path_def doc_path_def)

text \<open>
  C3, amended. For an export on a store that holds a report, when opening or writing
  the image file or saving the document fails, the handler does not catch the failure:
  it emits no element, it ends with the exception that carries the underlying cause
  (nothing in the script encloses the handler, so the exception leaves the run), and
  what was written before the failure stays on disk: nothing when the open failed, the
  bytes written so far when the write failed, the whole image file and the partial
  document, if there is one, when the save failed. The handler never writes the session
  state.
\<close>

theorem export_failure_escapes:
  assumes "map_of ss ''report_content'' = Some v"
      and "map_of ss ''uploaded_image'' = Some (File f)"
  shows "(os_open_wb env img_path = Some e
          \<longrightarrow> export_docx env ss fs =
                (\<lparr>pc = Finished, doc = [Heading ''AI Medical Assistant Report'' 1],
                  emitted = [], raised = Some e\<rparr>, fs))
       \<and> (os_open_wb env img_path = None \<and> os_write env img_path (getvalue f) = Some (e, n)
          \<longrightarrow> export_docx env ss fs =
                (\<lparr>pc = Finished, doc = [Heading ''AI Medical Assistant Report'' 1],
                  emitted = [], raised = Some e\<rparr>,
                 fs(img_path \<mapsto> take n (getvalue f))))
       \<and> (os_open_wb env img_path = None \<and> os_write env img_path (getvalue f) = None \<and>
          add_picture env (getvalue f) = None \<and> add_paragraph env v = None \<and>
          doc_save env doc_path
            [Heading ''AI Medical Assistant Report'' 1, Picture (getvalue f) 4, Paragraph v]
          = SaveFails e part
          \<longrightarrow> export_docx env ss fs =
                (\<lparr>pc = Finished,
                  doc = [Heading ''AI Medical Assistant Report'' 1, Picture (getvalue f) 4,
                         Paragraph v],
                  emitted = [], raised = Some e\<rparr>,
                 case part of
                   None \<Rightarrow> fs(img_path \<mapsto> getvalue f)
                 | Some b \<Rightarrow> fs(img_path \<mapsto> getvalue f, doc_path \<mapsto> b)))"
proof (intro conjI impI)
  assume "os_open_wb env img_path = Some e"
  then show "export_docx env ss fs =
      (\<lparr>pc = Finished, doc = [Heading ''AI Medical Assistant Report'' 1],
        emitted = [], raised = Some e\<rparr>, fs)"
    using assms by (simp add: export_docx_open_fails)
next
  assume "os_open_wb env img_path = None \<and> os_write env img_path (getvalue f) = Some (e, n)"
  then show "export_docx env ss fs =
      (\<lparr>pc = Finished, doc = [Heading ''AI Medical Assistant Report'' 1],
        emitted = [], raised = Some e\<rparr>,
       fs(img_path \<mapsto> take n (getvalue f)))"
    using assms by (simp add: export_docx_write_fails)
next
  assume "os_open_wb env img_path = None \<and> os_write env img_path (getvalue f) = None \<and>
          add_picture env (getvalue f) = None \<and> add_paragraph env v = None \<and>
          doc_save env doc_path
            [Heading ''AI Medical Assistant Report'' 1, Picture (getvalue f) 4, Paragraph v]
          = SaveFails e part"
  then show "export_docx env ss fs =
      (\<lparr>pc = Finished,
        doc = [Heading ''AI Medical Assistant Report'' 1, Picture (getvalue f) 4,
               Paragraph v],
        emitted = [], raised = Some e\<rparr>,
       case part of
         None \<Rightarrow> fs(img_path \<mapsto> getvalue f)
       | Some b \<Rightarrow> fs(img_path \<mapsto> getvalue f, doc_path \<mapsto> b))"
    using assms by (simp add: export_docx_save_fails)
qed

theorem export_failure_escapes_witness:
  "export_docx read_only ready_scan no_files =
     (\<lparr>pc = Finished, doc = [Heading ''AI Medical Assistant Report'' 1], emitted = [],
       raised = Some (Exn ''PermissionError'' ''[Errno 13] Permission denied'')\<rparr>,
      no_files)
   \<and> export_docx short_write ready_scan no_files =
     (\<lparr>pc = Finished, doc = [Heading ''AI Medical Assistant Report'' 1], emitted = [],
       raised = Some (Exn ''OSError'' ''[Errno 28] No space left on device'')\<rparr>,
      no_files(img_path \<mapsto> [0x89, 0x50]))
   \<and> export_docx save_denied ready_scan no_files =
     (\<lparr>pc = Finished,
       doc = [Heading ''AI Medical Assistant Report'' 1, Picture [0x89, 0x50, 0x4E, 0x47] 4,
              Paragraph (Str ''Fracture of the left wrist.'')],
       emitted = [],
       raised = Some (Exn ''OSError'' ''[Errno 28] No space left on device'')\<rparr>,
      no_files(img_path \<mapsto> [0x89, 0x50, 0x4E, 0x47]))"
proof -
  have a: "map_of ready_scan ''report_content'' = Some (Str ''Fracture of the left wrist.'')"
    by (simp add: ready_scan_def)
  have b: "map_of ready_scan ''uploaded_image'' = Some (File scan)"
    by (simp add: ready_scan_def)
  show ?thesis
    using
      export_failure_escapes [OF a b, of read_only
        "Exn ''PermissionError'' ''[Errno 13] Permission denied''" no_files]
      export_failure_escapes [OF a b, of short_write
        "Exn ''OSError'' ''[Errno 28] No space left on device''" no_files 2]
      export_failure_escapes [OF a b, of save_denied
        "Exn ''OSError'' ''[Errno 28] No space left on device''" no_files _ None]
    by (simp add: read_only_def short_write_def save_denied_def answering_def scan_def)
qed

subsection \<open>C4: the exports of two sessions\<close>

text \<open>
  C4 as stated (two concurrent exports never meet on a path) fails. Session A holds a
  report on \<open>photo\<close>, session B one on \<open>scan\<close>; A writes its image file, B writes its
  own over it, then A runs to its end and B goes on. The document A offers for download
  embeds the image of B, and B ends with \<^verbatim>\<open>FileNotFoundError\<close>, its image file deleted by A.
\<close>

theorem concurrent_exports_collide:
  "emitted (run_a (interleave (answering []) ready_photo (answering []) ready_scan
      [SessionA, SessionB, SessionA, SessionA, SessionA, SessionA, SessionA, SessionB]
      \<lparr>run_a = start, run_b = start, shared = no_files\<rparr>))
     = [DownloadButton ''Download Report as DOCX''
          [0x50, 0x4B, 0x89, 0x50, 0x4E, 0x47] ''AI_Medical_Report.docx''
          ''application/vnd.openxmlformats-officedocument.wordprocessingml.document'']
   \<and> stored_image ready_photo = Some [0xFF, 0xD8, 0xFF, 0xE0]
   \<and> stored_image ready_scan = Some [0x89, 0x50, 0x4E, 0x47]
   \<and> raised (run_b (interleave (answering []) ready_photo (answering []) ready_scan
      [SessionA, SessionB, SessionA, SessionA, SessionA, SessionA, SessionA, SessionB]
      \<lparr>run_a = start, run_b = start, shared = no_files\<rparr>))
     = Some (Exn ''FileNotFoundError'' ''uploaded_image.jpg'')"
  by (simp add: export_defs sample_defs stored_image_def img_path_def doc_path_def)

text \<open>
  C4, amended. The exports of all sessions of one process share file state: every step
  of every export leaves all paths other than \<^verbatim>\<open>uploaded_image.jpg\<close> and
  \<^verbatim>\<open>AI_Medical_Report.docx\<close> as they were, and the first step of an export on a store
  that holds a report writes the session's image to \<^verbatim>\<open>uploaded_image.jpg\<close>, whatever the
  session and the call. Only an export that runs alone is isolated: what it builds,
  emits and raises does not depend on the files it finds.
\<close>

theorem export_paths_fixed:
  "(p \<noteq> ''uploaded_image.jpg'' \<and> p \<noteq> ''AI_Medical_Report.docx''
      \<longrightarrow> snd (export_step env ss (r, fs)) p = fs p)
   \<and> (map_of ss ''report_content'' = Some v \<and> map_of ss ''uploaded_image'' = Some (File f) \<and>
      os_open_wb env ''uploaded_image.jpg'' = None \<and>
      os_write env ''uploaded_image.jpg'' (getvalue f) = None
      \<longrightarrow> snd (export_step env ss (start, fs)) ''uploaded_image.jpg'' = Some (getvalue f))
   \<and> fst (export_docx env ss fs) = fst (export_docx env ss fs')"
proof (intro conjI impI)
  assume "p \<noteq> ''uploaded_image.jpg'' \<and> p \<noteq> ''AI_Medical_Report.docx''"
  then show "snd (export_step env ss (r, fs)) p = fs p"
    by (simp add: export_step_paths img_path_def doc_path_def)
next
  assume "map_of ss ''report_content'' = Some v \<and> map_of ss ''uploaded_image'' = Some (File f) \<and>
      os_open_wb env ''uploaded_image.jpg'' = None \<and>
      os_write env ''uploaded_image.jpg'' (getvalue f) = None"
  then show "snd (export_step env ss (start, fs)) ''uploaded_image.jpg'' = Some (getvalue f)"
    by (simp add: export_defs img_path_def)
next
  show "fst (export_docx env ss fs) = fst (export_docx env ss fs')"
    by (rule export_docx_own_files)
qed

theorem export_paths_fixed_witness:
  "snd (export_step (answering []) ready_photo (start, no_files(''notes.txt'' \<mapsto> [1])))
       ''notes.txt'' = Some [1]
   \<and> snd (export_step (answering []) ready_photo (start, no_files(''notes.txt'' \<mapsto> [1])))
       ''uploaded_image.jpg'' = Some (getvalue photo)
   \<and> snd (export_step (answering []) ready_scan (start, no_files)) ''uploaded_image.jpg''
     = Some (getvalue scan)"
proof -
  have n: "''notes.txt'' \<noteq> ''uploaded_image.jpg'' \<and> ''notes.txt'' \<noteq> ''AI_Medical_Report.docx''"
    by simp
  have a: "map_of ready_photo ''report_content''
             = Some (Str ''No abnormality detected. Consult a Doctor.'')
      \<and> map_of ready_photo ''uploaded_image'' = Some (File photo)
      \<and> os_open_wb (answering []) ''uploaded_image.jpg'' = None
      \<and> os_write (answering []) ''uploaded_image.jpg'' (getvalue photo) = None"
    by (simp add: ready_photo_def answering_def)
  have b: "map_of ready_scan ''report_content'' = Some (Str ''Fracture of the left wrist.'')
      \<and> map_of ready_scan ''uploaded_image'' = Some (File scan)
      \<and> os_open_wb (answering []) ''uploaded_image.jpg'' = None
      \<and> os_write (answering []) ''uploaded_image.jpg'' (getvalue scan) = None"
    by (simp add: ready_scan_def answering_def)
  show ?thesis
    using n a b
      export_paths_fixed [of "''notes.txt''" "answering []" ready_photo start
        "no_files(''notes.txt'' \<mapsto> [1])" "Str ''No abnormality detected. Consult a Doctor.''"
        photo no_files]
      export_paths_fixed [of "''notes.txt''" "answering []" ready_scan start
        no_files "Str ''Fracture of the left wrist.''" scan no_files]
    by simp
qed

subsection \<open>C5: the stored image\<close>

text \<open>
  C5 as stated (after every successful generate action the stored image is the
  uploaded one) fails. A new session generates on the white pixel, a complete PNG file,
  then on the black pixel, another one, and is answered both times: the stored image is
  still the white pixel.
\<close>

theorem second_upload_not_stored:
  "stored_image (snd (generate_report (answering ''second'') (Some black_pixel)
      (snd (generate_report (answering ''first'') (Some white_pixel) []))))
     = Some (getvalue white_pixel)
   \<and> getvalue white_pixel \<noteq> getvalue black_pixel"
  by (simp add: generate_report_def answering_def save_report_def has_key_def
      stored_image_def white_pixel_def black_pixel_def)

text \<open>
  C5, amended. After an upload and a successful analysis call, the stored image is
  byte for byte the uploaded file when the session state held no \<^verbatim>\<open>uploaded_image\<close>
  before (a new session, or after Clear All); when it held one, the stored image is
  the earlier one, unchanged. Nothing transcodes the bytes in either case.
\<close>

theorem stored_image_after_generate:
  assumes "generate_content env
             (\<lparr>mime_type = ''image/jpeg'', data = getvalue f\<rparr>, SYSTEM_PROMPT)
           = Inr (Some resp)"
      and "resp_text resp = Inr t"
  shows "stored_image (snd (generate_report env (Some f) ss)) =
     (if has_key ss ''uploaded_image'' then stored_image ss else Some (getvalue f))"
  using assms by (simp add: generate_report_success stored_image_def save_report_image)

theorem stored_image_after_generate_witness:
  "stored_image (snd (generate_report (answering ''first'') (Some white_pixel) [])) =
     Some (getvalue white_pixel)"
proof -
  have g: "generate_content (answering ''first'')
             (\<lparr>mime_type = ''image/jpeg'', data = getvalue white_pixel\<rparr>, SYSTEM_PROMPT)
           = Inr (Some (Response (Inr ''first'')))"
    by (simp add: answering_def)
  have t: "resp_text (Response (Inr ''first'')) = Inr ''first''"
    by simp
  have e: "\<not> has_key [] ''uploaded_image''"
    by (simp add: has_key_def)
  show ?thesis
    using stored_image_after_generate [OF g t, of "[]"] e by simp
qed

subsection \<open>C6: generate without an upload\<close>

text \<open>
  C6. A generate action with no uploaded image emits the warning that asks for an image
  (the spec's NoImage) and nothing else, sends no request, and leaves the session
  state as it was, whatever it held; so does the whole run of the script.
\<close>

theorem generate_without_upload:
  "generate_report env None ss =
     ([Warning ''Please upload an image before generating a report.''], ss)
   \<and> script env None (Some GenerateReport) w =
     ([Warning ''Please upload an image before generating a report.''], None, w)"
  by (simp add: script_generate [OF show_upload_none] generate_report_def)

subsection \<open>C7: export without a report\<close>

text \<open>
  C7. The export handler, on a session state that does not hold both keys of a report
  (an empty store in particular), emits the warning that no report is available (the
  spec's NoReport) and nothing else, ends without an exception, builds no document and
  leaves every file as it was; the handler never writes the session state, so the state
  stays empty.
\<close>

theorem export_without_report:
  assumes "\<not> (has_key ss ''report_content'' \<and> has_key ss ''uploaded_image'')"
  shows "export_docx env ss fs =
     (\<lparr>pc = Finished, doc = [],
       emitted = [Warning ''No report available to export. Please generate a report first.''],
       raised = None\<rparr>, fs)"
  using assms by (rule export_docx_not_ready)

theorem export_without_report_witness:
  "\<not> (has_key [] ''report_content'' \<and> has_key [] ''uploaded_image'')
   \<and> export_docx (answering []) [] no_files =
     (\<lparr>pc = Finished, doc = [],
       emitted = [Warning ''No report available to export. Please generate a report first.''],
       raised = None\<rparr>, no_files)"
proof -
  have e: "\<not> (has_key [] ''report_content'' \<and> has_key [] ''uploaded_image'')"
    by (simp add: has_key_def)
  show ?thesis
    using e export_without_report [OF e, of "answering []" no_files] by simp
qed

subsection \<open>C8: clear\<close>

text \<open>
  C8. Whatever the session state holds, the clear handler raises nothing and leaves the
  session state (and the query parameters) empty; a second clear on what the first one
  left gives the same result as the first; and clearing an empty session state raises
  nothing and leaves it empty.
\<close>

theorem clear_empties_store:
  "clear_all ss qp = (None, [], [])
   \<and> clear_all (fst (snd (clear_all ss qp))) (snd (snd (clear_all ss qp))) = clear_all ss qp
   \<and> clear_all [] qp = (None, [], [])"
  by (simp add: clear_all_result)

subsection \<open>C9: the two keys of a report\<close>

text \<open>
  C9. Every run of the script (generate, export, clear, or no click) that starts in a
  session state where \<^verbatim>\<open>report_content\<close> and \<^verbatim>\<open>uploaded_image\<close> are both present or both
  absent ends in such a state; and every state a session reaches from its start, by any
  sequence of runs with any collaborators, is such a state.
\<close>

theorem report_keys_paired:
  "(paired (session w) \<longrightarrow> paired (session (snd (snd (script env up button w)))))
   \<and> paired (session (runs evs (initial fs)))"
proof
  show "paired (session w) \<longrightarrow> paired (session (snd (snd (script env up button w))))"
    by (simp add: paired_script)
  have "paired (session (initial fs))"
    by (simp add: initial_def paired_def has_key_def)
  then show "paired (session (runs evs (initial fs)))"
    by (rule paired_runs)
qed

theorem report_keys_paired_witness:
  "paired ready_white
   \<and> paired (session (snd (snd (script (answering ''second'') (Some black_pixel)
        (Some GenerateReport) \<lparr>session = ready_white, params = [], files = no_files\<rparr>))))
   \<and> has_key (session (runs [(answering ''first'', Some white_pixel, Some GenerateReport),
        (answering [], None, Some ExportDocx)] (initial no_files))) ''report_content''
   \<and> has_key (session (runs [(answering ''first'', Some white_pixel, Some GenerateReport),
        (answering [], None, Some ExportDocx)] (initial no_files))) ''uploaded_image''"
proof -
  have p: "paired ready_white"
    by (simp add: paired_def has_key_def ready_white_def)
  have r: "has_key (session (runs [(answering ''first'', Some white_pixel, Some GenerateReport),
        (answering [], None, Some ExportDocx)] (initial no_files))) ''report_content''"
    by (simp add: script_def show_upload_def initial_def generate_report_def answering_def
        save_report_def has_key_def split: prod.splits)
  show ?thesis
    using p r
      report_keys_paired [of "\<lparr>session = ready_white, params = [], files = no_files\<rparr>"
        "answering ''second''" "Some black_pixel" "Some GenerateReport"
        "[(answering ''first'', Some white_pixel, Some GenerateReport),
          (answering [], None, Some ExportDocx)]" no_files]
    by (simp add: paired_def)
qed

subsection \<open>C10: the declared mime type\<close>

text \<open>
  C10. For every uploaded file, whatever its name, its type and its bytes, and whatever
  the model answers, the generate action sends exactly one request; its image part
  declares the mime type \<^verbatim>\<open>image/jpeg\<close> and carries the uploaded bytes.
\<close>

theorem request_declares_jpeg:
  "requests (fst (generate_report env (Some f) ss)) =
     [(\<lparr>mime_type = ''image/jpeg'', data = getvalue f\<rparr>, SYSTEM_PROMPT)]"
  by (simp add: generate_report_def Let_def split: sum.splits option.splits)

end
